theory Spec2Isabelle
  imports Complex_Main
begin

section \<open>Highlight analysis service (app/services/ai/analysis.py)\<close>

text \<open>
  A shallow embedding of \<^verbatim>\<open>AnalysisService\<close>. Python floats are modelled as
  \<^typ>\<open>real\<close> (exact arithmetic, so there is neither rounding of the binary
  representation nor NaN), Python's unbounded integers as \<^typ>\<open>int\<close>, and texts
  as \<^typ>\<open>string\<close>, a character being a code point below 256 (the Latin-1 range),
  on which \<^verbatim>\<open>str.lower\<close>, \<^verbatim>\<open>\d\<close>, \<^verbatim>\<open>\w\<close> and
  \<^verbatim>\<open>str.strip\<close> act as Python's Unicode-aware classes do. A segment dictionary is a record with
  the three keys the service reads (a key it never reads, such as the transcriber's
  \<^verbatim>\<open>confidence\<close>, is left out); the \<^verbatim>\<open>.get(key, default)\<close> defaults
  are therefore never taken.
\<close>

subsection \<open>Strings\<close>

text \<open>\<^verbatim>\<open>ord(c)\<close>\<close>

definition ord :: "char \<Rightarrow> nat" where
  "ord c = of_char c"

definition is_upper :: "char \<Rightarrow> bool" where
  "is_upper c = (65 \<le> ord c \<and> ord c \<le> 90)"

text \<open>\<^verbatim>\<open>str.lower\<close> on one character: the capital letters A to Z, and the Latin-1
  capitals from U+00C0 to U+00DE except the multiplication sign U+00D7, move up by 32.\<close>

definition lower_char :: "char \<Rightarrow> char" where
  "lower_char c =
     (if is_upper c \<or> (192 \<le> ord c \<and> ord c \<le> 214) \<or> (216 \<le> ord c \<and> ord c \<le> 222)
      then char_of (ord c + 32) else c)"

definition lower :: "string \<Rightarrow> string" where
  "lower s = map lower_char s"

text \<open>\<^verbatim>\<open>s.startswith(p)\<close>\<close>

fun startswith :: "string \<Rightarrow> string \<Rightarrow> bool" where
  "startswith s [] = True"
| "startswith [] (p # ps) = False"
| "startswith (c # cs) (p # ps) = (c = p \<and> startswith cs ps)"

text \<open>\<^verbatim>\<open>w in s\<close> on strings: \<open>w\<close> occurs in \<open>s\<close> as a contiguous substring.\<close>

fun contains :: "string \<Rightarrow> string \<Rightarrow> bool" where
  "contains w [] = (w = [])"
| "contains w (c # cs) = (startswith (c # cs) w \<or> contains w cs)"

definition is_digit :: "char \<Rightarrow> bool" where
  "is_digit c = (48 \<le> ord c \<and> ord c \<le> 57)"

definition is_alpha :: "char \<Rightarrow> bool" where
  "is_alpha c = (is_upper c \<or> (97 \<le> ord c \<and> ord c \<le> 122))"

text \<open>The classes \<^verbatim>\<open>[A-Z]\<close>, \<^verbatim>\<open>[A-Za-z]\<close> and \<^verbatim>\<open>\d\<close> are
  \<^const>\<open>is_upper\<close>, \<^const>\<open>is_alpha\<close> and \<^const>\<open>is_digit\<close>: below 256 the only
  decimal digits are 0 to 9. The class \<^verbatim>\<open>\w\<close> of the \<^verbatim>\<open>re\<close> module on a
  \<^verbatim>\<open>str\<close> pattern is Unicode-aware: the underscore and every alphanumeric character,
  which below 256 are the ASCII letters and digits, the ordinal indicators U+00AA and
  U+00BA, the superscripts U+00B2, U+00B3 and U+00B9, the micro sign U+00B5, the fractions
  U+00BC to U+00BE, and the letters from U+00C0 to U+00FF except U+00D7 and U+00F7.\<close>

definition is_word_char :: "char \<Rightarrow> bool" where
  "is_word_char c =
     (is_alpha c \<or> is_digit c \<or> ord c = 95
      \<or> ord c = 170 \<or> ord c = 178 \<or> ord c = 179 \<or> ord c = 181 \<or> ord c = 185 \<or> ord c = 186
      \<or> (188 \<le> ord c \<and> ord c \<le> 190)
      \<or> (192 \<le> ord c \<and> ord c \<le> 214) \<or> (216 \<le> ord c \<and> ord c \<le> 246)
      \<or> (248 \<le> ord c \<and> ord c \<le> 255))"

text \<open>The characters \<^verbatim>\<open>str.strip()\<close> removes: tab to carriage return, the four
  separators FS to US, the space, the next-line control U+0085 and the no-break space
  U+00A0.\<close>

definition is_space :: "char \<Rightarrow> bool" where
  "is_space c =
     ((9 \<le> ord c \<and> ord c \<le> 13) \<or> (28 \<le> ord c \<and> ord c \<le> 32)
      \<or> ord c = 133 \<or> ord c = 160)"

definition strip :: "string \<Rightarrow> string" where
  "strip s = rev (dropWhile is_space (rev (dropWhile is_space s)))"

text \<open>\<^verbatim>\<open>s.split(".")\<close>: the pieces between the separators; never an empty list.\<close>

fun split_on :: "char \<Rightarrow> string \<Rightarrow> string list" where
  "split_on sep [] = [[]]"
| "split_on sep (c # cs) =
     (if c = sep then [] # split_on sep cs
      else (case split_on sep cs of
              [] \<Rightarrow> [[c]]
            | p # ps \<Rightarrow> (c # p) # ps))"

text \<open>\<^verbatim>\<open>" ".join(parts)\<close>\<close>

fun join_space :: "string list \<Rightarrow> string" where
  "join_space [] = []"
| "join_space [p] = p"
| "join_space (p # q # ps) = p @ CHR '' '' # join_space (q # ps)"

subsection \<open>Segment scoring\<close>

text \<open>The two loop shapes of the scoring functions: a loop that adds its bonus at the
  first matching vocabulary entry and breaks, and a loop that adds it at every
  matching entry.\<close>

fun add_first :: "(string \<Rightarrow> bool) \<Rightarrow> real \<Rightarrow> string list \<Rightarrow> real \<Rightarrow> real" where
  "add_first p b [] score = score"
| "add_first p b (w # ws) score = (if p w then score + b else add_first p b ws score)"

fun add_each :: "(string \<Rightarrow> bool) \<Rightarrow> real \<Rightarrow> string list \<Rightarrow> real \<Rightarrow> real" where
  "add_each p b [] score = score"
| "add_each p b (w # ws) score = add_each p b ws (if p w then score + b else score)"

definition bold_indicators :: "string list" where
  "bold_indicators =
     [''fact'', ''truth'', ''secret'', ''never'', ''always'', ''everyone'', ''nobody'']"

definition story_starters :: "string list" where
  "story_starters = [''when i'', ''i remember'', ''one day'', ''last year'', ''recently'']"

definition calculate_hook_score :: "string \<Rightarrow> real \<Rightarrow> real" where
  "calculate_hook_score text start_time =
     (let score = 50;
          score = (if start_time < 30 then score + 15
                   else if start_time < 60 then score + 10 else score);
          score = (if contains ''?'' text then score + 10 else score);
          score = add_first (\<lambda>indicator. contains indicator (lower text)) 5
                    bold_indicators score;
          score = (if list_ex is_digit text then score + 5 else score);
          score = add_first (\<lambda>starter. startswith (lower text) starter) 10
                    story_starters score
      in min 100 (max 0 score))"

definition emotional_words :: "string list" where
  "emotional_words =
     [''amazing'', ''incredible'', ''shocking'', ''surprising'', ''unbelievable'',
      ''love'', ''hate'', ''angry'', ''happy'', ''sad'', ''excited'', ''worried'',
      ''perfect'', ''terrible'', ''awesome'', ''awful'', ''fantastic'']"

definition cta_words :: "string list" where
  "cta_words = [''subscribe'', ''follow'', ''like'', ''comment'', ''share'', ''check out'']"

definition controversial :: "string list" where
  "controversial = [''controversial'', ''debate'', ''argue'', ''wrong'', ''right'', ''truth'']"

definition calculate_engagement_score :: "string \<Rightarrow> real" where
  "calculate_engagement_score text =
     (let score = 50;
          score = add_each (\<lambda>word. contains word (lower text)) 3 emotional_words score;
          score = add_each (\<lambda>word. contains word (lower text)) 5 cta_words score;
          score = add_each (\<lambda>word. contains word (lower text)) 5 controversial score
      in min 100 (max 0 score))"

definition trending :: "string list" where
  "trending = [''ai'', ''crypto'', ''bitcoin'', ''money'', ''success'', ''motivation'']"

definition calculate_viral_score :: "string \<Rightarrow> real \<Rightarrow> real \<Rightarrow> real" where
  "calculate_viral_score text hook_score engagement_score =
     (let viral_score = (hook_score * 0.4) + (engagement_score * 0.4) + 20;
          viral_score = add_each (\<lambda>topic. contains topic (lower text)) 5 trending viral_score
      in min 100 (max 0 viral_score))"

subsection \<open>Emotions\<close>

text \<open>The emotions dictionary always has the same six keys, in this order.\<close>

record emotions =
  joy :: real
  anger :: real
  sadness :: real
  fear :: real
  surprise :: real
  neutral :: real

definition joy_words :: "string list" where
  "joy_words =
     [''happy'', ''joy'', ''excited'', ''amazing'', ''great'', ''awesome'', ''love'', ''perfect'']"

definition anger_words :: "string list" where
  "anger_words = [''angry'', ''hate'', ''terrible'', ''awful'', ''worst'', ''annoying'']"

definition surprise_words :: "string list" where
  "surprise_words = [''wow'', ''unbelievable'', ''shocking'', ''surprising'', ''incredible'']"

text \<open>One vocabulary loop of \<^verbatim>\<open>_detect_emotions\<close>: every word found in the text
  adds 0.2 to the loop's emotion (\<open>upd\<close> is that field's update) and takes 0.1 from
  neutral.\<close>

fun emotion_loop ::
  "((real \<Rightarrow> real) \<Rightarrow> emotions \<Rightarrow> emotions) \<Rightarrow> string \<Rightarrow> string list \<Rightarrow> emotions \<Rightarrow> emotions"
where
  "emotion_loop upd text_lower [] e = e"
| "emotion_loop upd text_lower (w # ws) e =
     emotion_loop upd text_lower ws
       (if contains w text_lower
        then neutral_update (\<lambda>v. v - 0.1) (upd (\<lambda>v. v + 0.2) e)
        else e)"

text \<open>\<^verbatim>\<open>sum(emotions.values())\<close>\<close>

definition values_sum :: "emotions \<Rightarrow> real" where
  "values_sum e = joy e + anger e + sadness e + fear e + surprise e + neutral e"

definition detect_emotions :: "string \<Rightarrow> emotions" where
  "detect_emotions text =
     (let e = \<lparr>joy = 0, anger = 0, sadness = 0, fear = 0, surprise = 0, neutral = 1\<rparr>;
          text_lower = lower text;
          e = emotion_loop joy_update text_lower joy_words e;
          e = emotion_loop anger_update text_lower anger_words e;
          e = emotion_loop surprise_update text_lower surprise_words e;
          total = values_sum e
      in if total > 0
         then \<lparr>joy = joy e / total, anger = anger e / total, sadness = sadness e / total,
               fear = fear e / total, surprise = surprise e / total,
               neutral = neutral e / total\<rparr>
         else e)"

definition shift_indicators :: "string list" where
  "shift_indicators =
     [''but'', ''however'', ''on the other hand'', ''speaking of'',
      ''moving on'', ''let'' @ [CHR 0x27] @ ''s talk about'', ''another thing'']"

definition detect_topic_shift :: "string \<Rightarrow> string \<Rightarrow> bool" where
  "detect_topic_shift text context =
     list_ex (\<lambda>indicator. contains indicator (lower text)) shift_indicators"

subsection \<open>Segments\<close>

record segment =
  seg_start :: real
  seg_end :: real
  seg_text :: string

text \<open>An analysed segment is the merged dictionary
  \<^verbatim>\<open>{**segment, **analysis}\<close>: the segment's own keys and the five keys of
  \<^verbatim>\<open>_analyze_segment\<close>.\<close>

record analyzed_segment = segment +
  hook_score :: real
  engagement_score :: real
  viral_score :: real
  emotions :: emotions
  topic_shift :: bool

definition analyze_segment :: "segment \<Rightarrow> string \<Rightarrow> analyzed_segment" where
  "analyze_segment sg full_text =
     (let text = seg_text sg;
          hook = calculate_hook_score text (seg_start sg);
          engagement = calculate_engagement_score text;
          viral = calculate_viral_score text hook engagement;
          emo = detect_emotions text;
          shift = detect_topic_shift text full_text
      in \<lparr>seg_start = seg_start sg, seg_end = seg_end sg, seg_text = seg_text sg,
          hook_score = hook, engagement_score = engagement, viral_score = viral,
          emotions = emo, topic_shift = shift\<rparr>)"

subsection \<open>Topics and keywords\<close>

text \<open>The maximal runs of \<^verbatim>\<open>\w\<close> characters of a text, left to right. A pattern
  \<^verbatim>\<open>\b[A-Za-z]{4,}\b\<close> can only match a whole run: inside a run there is no
  word boundary, so a match starts where a run starts, ends where it ends, and the run
  holds nothing but letters.\<close>

fun word_runs :: "string \<Rightarrow> string \<Rightarrow> string list" where
  "word_runs cur [] = (if cur = [] then [] else [cur])"
| "word_runs cur (c # cs) =
     (if is_word_char c then word_runs (cur @ [c]) cs
      else (if cur = [] then [] else [cur]) @ word_runs [] cs)"

text \<open>\<^verbatim>\<open>re.findall(r'\b[A-Za-z]{4,}\b', s)\<close>\<close>

definition find_words :: "string \<Rightarrow> string list" where
  "find_words s = filter (\<lambda>w. list_all is_alpha w \<and> 4 \<le> length w) (word_runs [] s)"

text \<open>\<^verbatim>\<open>re.findall(r'\b[A-Z]{3,}\b', s)\<close>\<close>

definition find_caps :: "string \<Rightarrow> string list" where
  "find_caps s = filter (\<lambda>w. list_all is_upper w \<and> 3 \<le> length w) (word_runs [] s)"

definition stop_words :: "string list" where
  "stop_words =
     [''this'', ''that'', ''with'', ''from'', ''they'', ''have'', ''were'',
      ''been'', ''their'', ''would'', ''there'', ''could'', ''should'']"

text \<open>\<^verbatim>\<open>word_freq[word] = word_freq.get(word, 0) + 1\<close> on a dictionary kept as an
  association list in insertion order.\<close>

fun bump_count :: "string \<Rightarrow> (string \<times> int) list \<Rightarrow> (string \<times> int) list" where
  "bump_count w [] = [(w, 1)]"
| "bump_count w ((k, n) # kvs) =
     (if k = w then (k, n + 1) # kvs else (k, n) # bump_count w kvs)"

fun count_words :: "string list \<Rightarrow> (string \<times> int) list \<Rightarrow> (string \<times> int) list" where
  "count_words [] word_freq = word_freq"
| "count_words (w # ws) word_freq =
     count_words ws (if w \<in> set stop_words then word_freq else bump_count w word_freq)"

text \<open>\<^verbatim>\<open>sorted(xs, key=f, reverse=True)\<close> and \<^verbatim>\<open>xs.sort(key=f, reverse=True)\<close>:
  Python's sort is stable also when reversed, so the result is in descending key order
  and elements with equal keys keep their order in the input.\<close>

fun insort_desc :: "('a \<Rightarrow> 'k::linorder) \<Rightarrow> 'a \<Rightarrow> 'a list \<Rightarrow> 'a list" where
  "insort_desc f x [] = [x]"
| "insort_desc f x (y # ys) = (if f y \<le> f x then x # y # ys else y # insort_desc f x ys)"

definition sort_desc :: "('a \<Rightarrow> 'k::linorder) \<Rightarrow> 'a list \<Rightarrow> 'a list" where
  "sort_desc f xs = foldr (insort_desc f) xs []"

definition extract_topics :: "string \<Rightarrow> string list" where
  "extract_topics text =
     (let words = find_words (lower text);
          word_freq = count_words words [];
          sorted_topics = sort_desc snd word_freq
      in map fst (take 5 sorted_topics))"

text \<open>\<^verbatim>\<open>list(dict.fromkeys(xs))\<close>: the first occurrence of each element, in order.\<close>

fun fromkeys :: "string list \<Rightarrow> string list \<Rightarrow> string list" where
  "fromkeys seen [] = []"
| "fromkeys seen (x # xs) =
     (if x \<in> set seen then fromkeys seen xs else x # fromkeys (x # seen) xs)"

text \<open>\<^verbatim>\<open>_extract_keywords\<close> reads nothing of a segment but its text, and it is called
  on raw and on analysed segments alike: the model takes the list of the segments'
  texts.\<close>

definition extract_keywords :: "string \<Rightarrow> string list \<Rightarrow> string list" where
  "extract_keywords text segment_texts =
     (let topics = extract_topics text;
          emphasis_words = concat (map find_caps segment_texts);
          keywords = fromkeys [] (topics @ emphasis_words)
      in take 10 keywords)"

subsection \<open>Highlight windows\<close>

text \<open>The dictionary of a highlight. Its keys \<^verbatim>\<open>start\<close>, \<^verbatim>\<open>end\<close>,
  \<^verbatim>\<open>keywords\<close> and the three scores carry the prefix \<open>hl_\<close>, since a segment or
  the result has keys of the same names.\<close>

record highlight =
  hl_start :: int
  hl_end :: int
  title :: string
  description :: string
  hl_viral_score :: real
  hl_hook_score :: real
  hl_engagement_score :: real
  hl_keywords :: "string list"
  transcript :: string

text \<open>\<^verbatim>\<open>int(duration)\<close> truncates towards zero.\<close>

definition py_int :: "real \<Rightarrow> int" where
  "py_int x = (if 0 \<le> x then \<lfloor>x\<rfloor> else \<lceil>x\<rceil>)"

text \<open>\<^verbatim>\<open>range(start, stop, step)\<close> for a positive step, the only kind the service
  uses.\<close>

function py_range :: "int \<Rightarrow> int \<Rightarrow> int \<Rightarrow> int list" where
  "py_range start stop step =
     (if 0 < step \<and> start < stop then start # py_range (start + step) stop step else [])"
  by pat_completeness auto
termination
  by (relation "measure (\<lambda>(start, stop, step). nat (stop - start))") auto

declare py_range.simps [simp del]

text \<open>\<^verbatim>\<open>np.mean\<close> of a list (the service calls it on non-empty lists only).\<close>

definition mean :: "real list \<Rightarrow> real" where
  "mean xs = sum_list xs / of_nat (length xs)"

text \<open>\<^verbatim>\<open>round(x, n)\<close>: the nearest multiple of \<open>10\<^sup>-\<^sup>n\<close>. The code rounds a
  double, not the real number it stands for: where the real number lies exactly halfway
  between two multiples, the double may lie on either side of the tie, or on it, and the
  code's result is the one neighbour or the other. The model therefore takes the way
  ties fall as a parameter \<open>up\<close> (rounding up where it holds of the scaled value), which
  every function that rounds passes on, and every property below is proved for every
  \<open>up\<close>. \<^verbatim>\<open>round\<close> on the exact value is \<open>ties_to_even\<close>.\<close>

type_synonym tie_break = "real \<Rightarrow> bool"

definition round_nearest :: "tie_break \<Rightarrow> real \<Rightarrow> int" where
  "round_nearest up x =
     (let f = \<lfloor>x\<rfloor>; d = x - of_int f
      in if d < 1 / 2 then f else if 1 / 2 < d then f + 1 else if up x then f + 1 else f)"

definition ties_to_even :: tie_break where
  "ties_to_even x = odd \<lfloor>x\<rfloor>"

definition py_round :: "tie_break \<Rightarrow> real \<Rightarrow> nat \<Rightarrow> real" where
  "py_round up x n = of_int (round_nearest up (x * 10 ^ n)) / 10 ^ n"

definition generate_title :: "string \<Rightarrow> string" where
  "generate_title text =
     (let sentences = split_on CHR ''.'' text
      in if sentences \<noteq> []
         then (let title = strip (hd sentences)
               in if 60 < length title then take 57 title @ ''...'' else title)
         else ''Untitled Clip'')"

definition window_size :: int where
  "window_size = 30"

definition stride :: int where
  "stride = 5"

text \<open>The segments a window selects: the list comprehension of
  \<^verbatim>\<open>_detect_highlights\<close>.\<close>

definition window_segments :: "analyzed_segment list \<Rightarrow> int \<Rightarrow> int \<Rightarrow> analyzed_segment list" where
  "window_segments segments start end' =
     filter (\<lambda>s. of_int start \<le> seg_start s \<and> seg_end s \<le> of_int end') segments"

text \<open>The dictionary appended for a window with at least one segment.\<close>

definition make_highlight ::
  "tie_break \<Rightarrow> int \<Rightarrow> int \<Rightarrow> analyzed_segment list \<Rightarrow> highlight" where
  "make_highlight up start end' ws =
     (let avg_viral = mean (map viral_score ws);
          avg_hook = mean (map hook_score ws);
          avg_engagement = mean (map engagement_score ws);
          tr = join_space (map seg_text ws);
          kws = take 5 (extract_keywords tr (map seg_text ws))
      in \<lparr>hl_start = start, hl_end = end',
          title = generate_title tr,
          description = (if 200 < length tr then take 200 tr @ ''...'' else tr),
          hl_viral_score = py_round up avg_viral 1,
          hl_hook_score = py_round up avg_hook 1,
          hl_engagement_score = py_round up avg_engagement 1,
          hl_keywords = kws,
          transcript = tr\<rparr>)"

text \<open>The body of the loop over window starts; an empty window is skipped
  (\<^verbatim>\<open>continue\<close>).\<close>

fun window_loop :: "tie_break \<Rightarrow> analyzed_segment list \<Rightarrow> int list \<Rightarrow> highlight list" where
  "window_loop up segments [] = []"
| "window_loop up segments (start # starts) =
     (let end' = start + window_size;
          ws = window_segments segments start end'
      in if ws = [] then window_loop up segments starts
         else make_highlight up start end' ws # window_loop up segments starts)"

definition window_starts :: "real \<Rightarrow> int list" where
  "window_starts duration = py_range 0 (py_int duration - window_size + 1) stride"

text \<open>The list \<^verbatim>\<open>highlights\<close> before it is sorted.\<close>

definition candidate_windows ::
  "tie_break \<Rightarrow> analyzed_segment list \<Rightarrow> real \<Rightarrow> highlight list" where
  "candidate_windows up segments duration = window_loop up segments (window_starts duration)"

definition detect_highlights ::
  "tie_break \<Rightarrow> analyzed_segment list \<Rightarrow> real \<Rightarrow> highlight list" where
  "detect_highlights up segments duration =
     take 10 (sort_desc hl_viral_score (candidate_windows up segments duration))"

subsection \<open>Sentiment\<close>

text \<open>The sentiment dictionary has different keys on different paths; a key that is
  absent is \<open>None\<close>.\<close>

record sentiment =
  overall :: "string option"
  distribution :: "emotions option"
  positive :: "real option"
  negative :: "real option"
  score :: "real option"

definition empty_dict :: sentiment where
  "empty_dict = \<lparr>overall = None, distribution = None, positive = None, negative = None,
                  score = None\<rparr>"

text \<open>\<^verbatim>\<open>emotions.items()\<close>, in the dictionary's order.\<close>

definition emotion_items :: "emotions \<Rightarrow> (string \<times> real) list" where
  "emotion_items e =
     [(''joy'', joy e), (''anger'', anger e), (''sadness'', sadness e),
      (''fear'', fear e), (''surprise'', surprise e), (''neutral'', neutral e)]"

text \<open>The aggregation loop: every key of a segment's emotions is added to the same key
  of \<^verbatim>\<open>all_emotions\<close>.\<close>

fun aggregate_emotions :: "analyzed_segment list \<Rightarrow> emotions \<Rightarrow> emotions" where
  "aggregate_emotions [] acc = acc"
| "aggregate_emotions (s # ss) acc =
     aggregate_emotions ss
       \<lparr>joy = joy acc + joy (emotions s), anger = anger acc + anger (emotions s),
        sadness = sadness acc + sadness (emotions s), fear = fear acc + fear (emotions s),
        surprise = surprise acc + surprise (emotions s),
        neutral = neutral acc + neutral (emotions s)\<rparr>"

text \<open>\<^verbatim>\<open>max(d, key=d.get)\<close>: the first key, in the dictionary's order, whose value
  no other value exceeds. \<open>best\<close> is the entry kept so far.\<close>

fun max_item :: "string \<times> real \<Rightarrow> (string \<times> real) list \<Rightarrow> string \<times> real" where
  "max_item best [] = best"
| "max_item best (kv # kvs) = max_item (if snd best < snd kv then kv else best) kvs"

definition max_key :: "(string \<times> real) list \<Rightarrow> string" where
  "max_key items = fst (max_item (hd items) (tl items))"

definition analyze_sentiment :: "tie_break \<Rightarrow> analyzed_segment list \<Rightarrow> sentiment" where
  "analyze_sentiment up segments =
     (if segments = []
      then \<lparr>overall = Some ''neutral'', distribution = None, positive = None,
            negative = None, score = Some 0\<rparr>
      else
        (let all_emotions = aggregate_emotions segments
               \<lparr>joy = 0, anger = 0, sadness = 0, fear = 0, surprise = 0, neutral = 0\<rparr>;
             total = values_sum all_emotions;
             all_emotions =
               (if total > 0
                then \<lparr>joy = py_round up (joy all_emotions / total) 3,
                      anger = py_round up (anger all_emotions / total) 3,
                      sadness = py_round up (sadness all_emotions / total) 3,
                      fear = py_round up (fear all_emotions / total) 3,
                      surprise = py_round up (surprise all_emotions / total) 3,
                      neutral = py_round up (neutral all_emotions / total) 3\<rparr>
                else all_emotions);
             dominant_emotion = max_key (emotion_items all_emotions)
         in \<lparr>overall = Some dominant_emotion,
             distribution = Some all_emotions,
             positive = Some (joy all_emotions + surprise all_emotions * 0.5),
             negative = Some (anger all_emotions + sadness all_emotions + fear all_emotions),
             score = None\<rparr>))"

subsection \<open>The analysis of a video\<close>

record transcription =
  tr_segments :: "segment list"
  tr_text :: string

text \<open>The result dictionary; the key \<^verbatim>\<open>segment_analysis\<close> is absent on the early
  return. Its key \<^verbatim>\<open>keywords\<close> is the field \<open>result_keywords\<close>.\<close>

record analysis_result =
  highlights :: "highlight list"
  topics :: "string list"
  result_keywords :: "string list"
  sentiment :: sentiment
  segment_analysis :: "analyzed_segment list option"

definition analyze_video :: "tie_break \<Rightarrow> transcription \<Rightarrow> real \<Rightarrow> analysis_result" where
  "analyze_video up tr duration =
     (let segments = tr_segments tr;
          full_text = tr_text tr
      in if segments = []
         then \<lparr>highlights = [], topics = [], result_keywords = [], sentiment = empty_dict,
               segment_analysis = None\<rparr>
         else
           (let analyzed_segments = map (\<lambda>sg. analyze_segment sg full_text) segments
            in \<lparr>highlights = detect_highlights up analyzed_segments duration,
                topics = extract_topics full_text,
                result_keywords = extract_keywords full_text (map seg_text segments),
                sentiment = analyze_sentiment up analyzed_segments,
                segment_analysis = Some analyzed_segments\<rparr>))"

subsection \<open>Example inputs\<close>

text \<open>Two transcripts on which the properties below are evaluated: one with a single
  segment, one with two segments of which the later one scores higher (at a duration of 45
  its window at 5 holds no segment, and its windows at 10 and 15 hold the same one), and
  one whose single segment matches eleven words of the emotion vocabularies.\<close>

abbreviation one_segment :: transcription where
  "one_segment \<equiv>
     \<lparr>tr_segments = [\<lparr>seg_start = 5, seg_end = 10, seg_text = ''happy angry''\<rparr>],
      tr_text = ''happy angry''\<rparr>"

abbreviation seg_a :: segment where
  "seg_a \<equiv> \<lparr>seg_start = 0, seg_end = 10, seg_text = ''hi''\<rparr>"

abbreviation seg_b :: segment where
  "seg_b \<equiv> \<lparr>seg_start = 33, seg_end = 36, seg_text = ''ai money''\<rparr>"

abbreviation two_segments :: transcription where
  "two_segments \<equiv> \<lparr>tr_segments = [seg_a, seg_b], tr_text = ''hi ai money''\<rparr>"

abbreviation eleven_matches :: transcription where
  "eleven_matches \<equiv>
     \<lparr>tr_segments =
        [\<lparr>seg_start = 0, seg_end = 10,
          seg_text = ''happy joy excited amazing great awesome love perfect angry hate terrible''\<rparr>],
      tr_text = ''happy joy excited amazing great awesome love perfect angry hate terrible''\<rparr>"

section \<open>Properties\<close>

subsection \<open>Auxiliary facts\<close>

lemmas char_class_defs =
  ord_def is_upper_def is_digit_def is_alpha_def is_word_char_def is_space_def lower_char_def






lemma split_on_nonempty: "split_on sep s \<noteq> []"
  by (induction s) (simp_all split: list.splits)

lemma generate_title_first_sentence:
  "generate_title t =
     (let s = strip (hd (split_on CHR ''.'' t))
      in if 60 < length s then take 57 s @ ''...'' else s)"
  by (simp add: generate_title_def split_on_nonempty Let_def)

subsection \<open>The early return on an empty segment list\<close>

text \<open>
  C1, as the claim states it, fails: for an empty segment list the sentiment of the result
  is the empty dictionary, so it has no \<^verbatim>\<open>overall\<close> entry at all, and in
  particular no entry equal to \<^verbatim>\<open>"neutral"\<close>; nor has the result a
  \<^verbatim>\<open>segment_analysis\<close> entry that could be an empty list.
\<close>

theorem analyze_video_no_segments_counterexample:
  "overall (sentiment (analyze_video ties_to_even \<lparr>tr_segments = [], tr_text = ''''\<rparr> 0)) \<noteq> Some ''neutral''
   \<and> overall (sentiment (analyze_video ties_to_even \<lparr>tr_segments = [], tr_text = ''''\<rparr> 0)) = None
   \<and> segment_analysis (analyze_video ties_to_even \<lparr>tr_segments = [], tr_text = ''''\<rparr> 0) \<noteq> Some []"
  unfolding analyze_video_def Let_def empty_dict_def by simp

text \<open>
  C1, amended: for an empty segment list, whatever the full text and the duration,
  \<^verbatim>\<open>analyze_video\<close> returns the dictionary whose highlights, topics and keywords are
  empty lists, whose sentiment is the empty dictionary, and which has no
  \<^verbatim>\<open>segment_analysis\<close> key.
\<close>

theorem analyze_video_no_segments:
  "analyze_video up \<lparr>tr_segments = [], tr_text = t\<rparr> duration =
     \<lparr>highlights = [], topics = [], result_keywords = [],
      sentiment = \<lparr>overall = None, distribution = None, positive = None, negative = None,
                    score = None\<rparr>,
      segment_analysis = None\<rparr>"
  unfolding analyze_video_def Let_def empty_dict_def by simp

subsection \<open>Window starts\<close>

text \<open>
  C2, as the claim states it, fails: for a duration of 100 the starts are not
  \<open>0, 5, \<dots>, 65\<close>, since 70 is one of them, and there are more than 14 of them.
\<close>

theorem window_starts_100_counterexample:
  "window_starts 100 \<noteq> [0, 5, 10, 15, 20, 25, 30, 35, 40, 45, 50, 55, 60, 65]
   \<and> 70 \<in> set (window_starts 100)
   \<and> \<not> length (window_starts 100) \<le> 14"
  by (simp add: window_starts_def py_int_def window_size_def stride_def py_range.simps)

text \<open>
  C2, amended: for a duration of 100 the candidate windows start exactly at
  \<open>0, 5, \<dots>, 70\<close> (the last start is \<open>100 - 30\<close>), which makes 15 windows before the
  empty ones are skipped.
\<close>

theorem window_starts_100:
  "window_starts 100 = [0, 5, 10, 15, 20, 25, 30, 35, 40, 45, 50, 55, 60, 65, 70]
   \<and> length (window_starts 100) = 15"
  by (simp add: window_starts_def py_int_def window_size_def stride_def py_range.simps)

subsection \<open>The hook score of a question with a bold word\<close>


subsection \<open>Titles\<close>

text \<open>
  C8: the title of the empty transcript is the empty string, not "Untitled Clip":
  splitting never returns an empty list, so the fallback of \<^verbatim>\<open>_generate_title\<close> is
  never reached.
\<close>

theorem generate_title_empty:
  "generate_title '''' = '''' \<and> generate_title '''' \<noteq> ''Untitled Clip''"
  by (simp add: generate_title_def strip_def)

subsection \<open>Vocabulary matching\<close>


subsection \<open>Score ranges, sorting and window selection: auxiliary facts\<close>

lemma clamp_range: "0 \<le> min 100 (max 0 (x::real)) \<and> min 100 (max 0 x) \<le> 100"
  by simp

lemma hook_score_range:
  "0 \<le> calculate_hook_score t s \<and> calculate_hook_score t s \<le> 100"
  unfolding calculate_hook_score_def Let_def by (rule clamp_range)

lemma engagement_score_range:
  "0 \<le> calculate_engagement_score t \<and> calculate_engagement_score t \<le> 100"
  unfolding calculate_engagement_score_def Let_def by (rule clamp_range)

lemma viral_score_range:
  "0 \<le> calculate_viral_score t h e \<and> calculate_viral_score t h e \<le> 100"
  unfolding calculate_viral_score_def Let_def by (rule clamp_range)

lemma analyze_segment_fields:
  "seg_start (analyze_segment sg ft) = seg_start sg"
  "seg_end (analyze_segment sg ft) = seg_end sg"
  "seg_text (analyze_segment sg ft) = seg_text sg"
  "hook_score (analyze_segment sg ft) = calculate_hook_score (seg_text sg) (seg_start sg)"
  "engagement_score (analyze_segment sg ft) = calculate_engagement_score (seg_text sg)"
  "viral_score (analyze_segment sg ft) =
     calculate_viral_score (seg_text sg) (calculate_hook_score (seg_text sg) (seg_start sg))
       (calculate_engagement_score (seg_text sg))"
  "emotions (analyze_segment sg ft) = detect_emotions (seg_text sg)"
  "topic_shift (analyze_segment sg ft) = detect_topic_shift (seg_text sg) ft"
  unfolding analyze_segment_def Let_def by simp_all

lemma sum_list_bounds:
  fixes xs :: "real list"
  shows "\<forall>x\<in>set xs. a \<le> x \<and> x \<le> b \<Longrightarrow>
         real (length xs) * a \<le> sum_list xs \<and> sum_list xs \<le> real (length xs) * b"
  by (induction xs) (auto simp: algebra_simps)

lemma mean_range:
  assumes "xs \<noteq> []" and "\<forall>x\<in>set xs. a \<le> x \<and> x \<le> b"
  shows "a \<le> mean xs \<and> mean xs \<le> b"
proof -
  have pos: "0 < real (length xs)" using assms(1) by simp
  from sum_list_bounds[OF assms(2)]
  have "real (length xs) * a \<le> sum_list xs" and "sum_list xs \<le> real (length xs) * b"
    by simp_all
  with pos show ?thesis
    unfolding mean_def by (simp add: le_divide_eq divide_le_eq mult.commute)
qed

lemma round_nearest_lower: "of_int lo \<le> x \<Longrightarrow> lo \<le> round_nearest up x"
proof -
  assume "of_int lo \<le> x"
  then have "lo \<le> \<lfloor>x\<rfloor>" by (simp add: le_floor_iff)
  then show ?thesis unfolding round_nearest_def Let_def by simp
qed

lemma round_nearest_upper: "x \<le> of_int hi \<Longrightarrow> round_nearest up x \<le> hi"
proof -
  assume a: "x \<le> of_int hi"
  then have f: "\<lfloor>x\<rfloor> \<le> hi" by (simp add: floor_le_iff)
  show ?thesis
  proof (cases "\<lfloor>x\<rfloor> = hi")
    case True
    then have "x - of_int \<lfloor>x\<rfloor> \<le> 0" using a by simp
    then show ?thesis unfolding round_nearest_def Let_def using True by simp
  next
    case False
    with f have "\<lfloor>x\<rfloor> + 1 \<le> hi" by simp
    with f show ?thesis unfolding round_nearest_def Let_def by simp
  qed
qed

lemma py_round_range:
  assumes "0 \<le> x" and "x \<le> 100"
  shows "0 \<le> py_round up x 1 \<and> py_round up x 1 \<le> 100"
proof -
  have "of_int 0 \<le> x * 10" using assms(1) by simp
  then have lo: "0 \<le> round_nearest up (x * 10)" by (rule round_nearest_lower)
  have "x * 10 \<le> of_int 1000" using assms(2) by simp
  then have hi: "round_nearest up (x * 10) \<le> 1000" by (rule round_nearest_upper)
  from lo hi show ?thesis unfolding py_round_def by simp
qed

lemma make_highlight_fields:
  "hl_start (make_highlight up st en ws) = st"
  "hl_end (make_highlight up st en ws) = en"
  "hl_viral_score (make_highlight up st en ws) = py_round up (mean (map viral_score ws)) 1"
  "hl_hook_score (make_highlight up st en ws) = py_round up (mean (map hook_score ws)) 1"
  "hl_engagement_score (make_highlight up st en ws) = py_round up (mean (map engagement_score ws)) 1"
  "transcript (make_highlight up st en ws) = join_space (map seg_text ws)"
  "title (make_highlight up st en ws) = generate_title (join_space (map seg_text ws))"
  unfolding make_highlight_def Let_def by simp_all

lemma window_loop_elem:
  "h \<in> set (window_loop up segs starts) \<Longrightarrow>
     \<exists>st\<in>set starts. window_segments segs st (st + window_size) \<noteq> []
        \<and> h = make_highlight up st (st + window_size) (window_segments segs st (st + window_size))"
  by (induction starts) (auto simp: Let_def split: if_splits)

lemma window_loop_starts:
  "map hl_start (window_loop up segs starts) =
     filter (\<lambda>st. window_segments segs st (st + window_size) \<noteq> []) starts"
  by (induction starts) (simp_all add: Let_def make_highlight_fields)

lemma set_insort_desc: "set (insort_desc f x ys) = insert x (set ys)"
  by (induction ys) auto

lemma set_sort_desc: "set (sort_desc f xs) = set xs"
  unfolding sort_desc_def by (induction xs) (simp_all add: set_insort_desc)

lemma length_insort_desc: "length (insort_desc f x ys) = Suc (length ys)"
  by (induction ys) simp_all

lemma length_sort_desc: "length (sort_desc f xs) = length xs"
  unfolding sort_desc_def by (induction xs) (simp_all add: length_insort_desc)

lemma detect_highlights_subset:
  "set (detect_highlights up segs d) \<subseteq> set (candidate_windows up segs d)"
  unfolding detect_highlights_def using set_take_subset[of 10] by (fastforce simp: set_sort_desc)

lemma py_range_step:
  "0 < step \<Longrightarrow> start < stop \<Longrightarrow>
     py_range start stop step = start # py_range (start + step) stop step"
  by (subst py_range.simps) simp

lemma py_range_stop: "\<not> (0 < step \<and> start < stop) \<Longrightarrow> py_range start stop step = []"
  by (subst py_range.simps) auto

lemma py_range_lower: "x \<in> set (py_range a b s) \<Longrightarrow> a \<le> x"
proof (induction a b s rule: py_range.induct)
  case (1 start stop step)
  show ?case
  proof (cases "0 < step \<and> start < stop")
    case True
    with "1.prems" have "x = start \<or> x \<in> set (py_range (start + step) stop step)"
      by (simp add: py_range_step)
    with "1.IH"[OF True] True show ?thesis by auto
  next
    case False
    with "1.prems" show ?thesis by (simp add: py_range_stop)
  qed
qed

lemma py_range_increasing: "sorted_wrt (<) (py_range a b s)"
proof (induction a b s rule: py_range.induct)
  case (1 start stop step)
  show ?case
  proof (cases "0 < step \<and> start < stop")
    case True
    have "\<forall>x\<in>set (py_range (start + step) stop step). start < x"
      using py_range_lower[of _ "start + step" stop step] True by fastforce
    with "1.IH"[OF True] True show ?thesis
      by (simp add: py_range_step)
  next
    case False
    then show ?thesis by (simp add: py_range_stop)
  qed
qed

lemma sorted_wrt_insort_desc:
  fixes g :: "'a \<Rightarrow> int"
  assumes "sorted_wrt (\<lambda>a b. f b \<le> f a \<and> (f a = f b \<longrightarrow> g a < g b)) ys"
    and "\<forall>y\<in>set ys. g x < g y"
  shows "sorted_wrt (\<lambda>a b. f b \<le> f a \<and> (f a = f b \<longrightarrow> g a < g b)) (insort_desc f x ys)"
  using assms
proof (induction ys)
  case Nil
  then show ?case by simp
next
  case (Cons y ys)
  show ?case
  proof (cases "f y \<le> f x")
    case True
    have "\<forall>z\<in>set (y # ys). f z \<le> f x" using Cons.prems(1) True by auto
    with Cons.prems True show ?thesis by auto
  next
    case False
    then have lt: "f x < f y" by simp
    have "sorted_wrt (\<lambda>a b. f b \<le> f a \<and> (f a = f b \<longrightarrow> g a < g b)) (insort_desc f x ys)"
      using Cons by simp
    with Cons.prems lt False show ?thesis by (auto simp: set_insort_desc)
  qed
qed

lemma sorted_wrt_sort_desc:
  fixes g :: "'a \<Rightarrow> int"
  assumes "sorted_wrt (\<lambda>a b. g a < g b) xs"
  shows "sorted_wrt (\<lambda>a b. f b \<le> f a \<and> (f a = f b \<longrightarrow> g a < g b)) (sort_desc f xs)"
  using assms
proof (induction xs)
  case Nil
  then show ?case by (simp add: sort_desc_def)
next
  case (Cons x xs)
  have "sort_desc f (x # xs) = insort_desc f x (sort_desc f xs)"
    by (simp add: sort_desc_def)
  moreover have "\<forall>y\<in>set (sort_desc f xs). g x < g y"
    using Cons.prems by (simp add: set_sort_desc)
  moreover have "sorted_wrt (\<lambda>a b. f b \<le> f a \<and> (f a = f b \<longrightarrow> g a < g b)) (sort_desc f xs)"
    using Cons by simp
  ultimately show ?case by (simp add: sorted_wrt_insort_desc)
qed

lemma candidate_windows_increasing:
  "sorted_wrt (\<lambda>a b. hl_start a < hl_start b) (candidate_windows up segs d)"
proof -
  have "sorted_wrt (<) (map hl_start (candidate_windows up segs d))"
    unfolding candidate_windows_def window_loop_starts window_starts_def
    by (rule sorted_wrt_filter) (rule py_range_increasing)
  then show ?thesis by (simp add: sorted_wrt_map)
qed

subsection \<open>Emotions of a segment\<close>

lemma emotion_loop_joy:
  "emotion_loop joy_update t ws e =
     e\<lparr>joy := joy e + real (length (filter (\<lambda>w. contains w t) ws)) / 5,
       neutral := neutral e - real (length (filter (\<lambda>w. contains w t) ws)) / 10\<rparr>"
  by (induction ws arbitrary: e) (simp_all add: field_simps)

lemma emotion_loop_anger:
  "emotion_loop anger_update t ws e =
     e\<lparr>anger := anger e + real (length (filter (\<lambda>w. contains w t) ws)) / 5,
       neutral := neutral e - real (length (filter (\<lambda>w. contains w t) ws)) / 10\<rparr>"
  by (induction ws arbitrary: e) (simp_all add: field_simps)

lemma emotion_loop_surprise:
  "emotion_loop surprise_update t ws e =
     e\<lparr>surprise := surprise e + real (length (filter (\<lambda>w. contains w t) ws)) / 5,
       neutral := neutral e - real (length (filter (\<lambda>w. contains w t) ws)) / 10\<rparr>"
  by (induction ws arbitrary: e) (simp_all add: field_simps)

lemma detect_emotions_eq:
  fixes t :: string
  defines "kj \<equiv> real (length (filter (\<lambda>w. contains w (lower t)) joy_words))"
    and "ka \<equiv> real (length (filter (\<lambda>w. contains w (lower t)) anger_words))"
    and "ks \<equiv> real (length (filter (\<lambda>w. contains w (lower t)) surprise_words))"
  shows "detect_emotions t =
     \<lparr>joy = (kj / 5) / (1 + (kj + ka + ks) / 10),
      anger = (ka / 5) / (1 + (kj + ka + ks) / 10),
      sadness = 0, fear = 0,
      surprise = (ks / 5) / (1 + (kj + ka + ks) / 10),
      neutral = (1 - (kj + ka + ks) / 10) / (1 + (kj + ka + ks) / 10)\<rparr>"
proof -
  define e where "e = emotion_loop surprise_update (lower t) surprise_words
     (emotion_loop anger_update (lower t) anger_words
       (emotion_loop joy_update (lower t) joy_words
         \<lparr>joy = 0, anger = 0, sadness = 0, fear = 0, surprise = 0, neutral = 1\<rparr>))"
  have e: "e = \<lparr>joy = kj / 5, anger = ka / 5, sadness = 0, fear = 0, surprise = ks / 5,
                neutral = 1 - (kj + ka + ks) / 10\<rparr>"
    unfolding e_def emotion_loop_joy emotion_loop_anger emotion_loop_surprise kj_def ka_def ks_def
    by (simp add: field_simps)
  have nonneg: "0 \<le> kj" "0 \<le> ka" "0 \<le> ks"
    by (simp_all add: kj_def ka_def ks_def)
  have total: "values_sum e = 1 + (kj + ka + ks) / 10"
    unfolding e values_sum_def by (simp add: field_simps)
  have pos: "0 < values_sum e" unfolding total using nonneg by (simp add: add_pos_nonneg)
  have "detect_emotions t =
      \<lparr>joy = joy e / values_sum e, anger = anger e / values_sum e,
       sadness = sadness e / values_sum e, fear = fear e / values_sum e,
       surprise = surprise e / values_sum e, neutral = neutral e / values_sum e\<rparr>"
    unfolding detect_emotions_def Let_def e_def[symmetric] using pos by simp
  then show ?thesis unfolding total unfolding e by simp
qed

lemma detect_emotions_sum: "values_sum (detect_emotions t) = 1"
proof -
  define kj where "kj = real (length (filter (\<lambda>w. contains w (lower t)) joy_words))"
  define ka where "ka = real (length (filter (\<lambda>w. contains w (lower t)) anger_words))"
  define ks where "ks = real (length (filter (\<lambda>w. contains w (lower t)) surprise_words))"
  define D where "D = 1 + (kj + ka + ks) / 10"
  have "0 \<le> kj" "0 \<le> ka" "0 \<le> ks" by (simp_all add: kj_def ka_def ks_def)
  then have "0 < D" unfolding D_def by (simp add: add_pos_nonneg)
  then have D: "D \<noteq> 0" by simp
  have "values_sum (detect_emotions t) =
      (kj / 5) / D + (ka / 5) / D + (ks / 5) / D + (1 - (kj + ka + ks) / 10) / D"
    unfolding detect_emotions_eq values_sum_def D_def kj_def ka_def ks_def by simp
  also have "\<dots> = (kj / 5 + ka / 5 + ks / 5 + (1 - (kj + ka + ks) / 10)) / D"
    by (simp only: add_divide_distrib)
  also have "kj / 5 + ka / 5 + ks / 5 + (1 - (kj + ka + ks) / 10) = D"
    unfolding D_def by (simp add: add_divide_distrib)
  finally show ?thesis using D by simp
qed

lemma detect_emotions_zero:
  "sadness (detect_emotions text) = 0" "fear (detect_emotions text) = 0"
  unfolding detect_emotions_eq by simp_all

text \<open>
  C4, amended: for every text, the five values joy, anger, sadness, fear and surprise of
  the emotions of a segment are non-negative and the six values sum to 1 (the sum before
  normalising is \<open>1 + n / 10\<close> for \<open>n\<close> matched vocabulary words, so it is always
  positive); neutral is non-negative whenever at most 10 vocabulary words match; and when
  no vocabulary word matches, the result is the default distribution with neutral = 1.
\<close>

theorem detect_emotions_distribution:
  "0 \<le> joy (detect_emotions text) \<and> 0 \<le> anger (detect_emotions text)
   \<and> 0 \<le> sadness (detect_emotions text) \<and> 0 \<le> fear (detect_emotions text)
   \<and> 0 \<le> surprise (detect_emotions text)
   \<and> values_sum (detect_emotions text) = 1
   \<and> (length (filter (\<lambda>w. contains w (lower text)) (joy_words @ anger_words @ surprise_words))
         \<le> 10 \<longrightarrow> 0 \<le> neutral (detect_emotions text))
   \<and> (filter (\<lambda>w. contains w (lower text)) (joy_words @ anger_words @ surprise_words) = []
         \<longrightarrow> detect_emotions text =
               \<lparr>joy = 0, anger = 0, sadness = 0, fear = 0, surprise = 0, neutral = 1\<rparr>)"
proof -
  define kj where "kj = length (filter (\<lambda>w. contains w (lower text)) joy_words)"
  define ka where "ka = length (filter (\<lambda>w. contains w (lower text)) anger_words)"
  define ks where "ks = length (filter (\<lambda>w. contains w (lower text)) surprise_words)"
  have len: "length (filter (\<lambda>w. contains w (lower text)) (joy_words @ anger_words @ surprise_words))
      = kj + ka + ks"
    by (simp add: kj_def ka_def ks_def)
  have eq: "detect_emotions text =
     \<lparr>joy = (real kj / 5) / (1 + (real kj + real ka + real ks) / 10),
      anger = (real ka / 5) / (1 + (real kj + real ka + real ks) / 10),
      sadness = 0, fear = 0,
      surprise = (real ks / 5) / (1 + (real kj + real ka + real ks) / 10),
      neutral = (1 - (real kj + real ka + real ks) / 10) / (1 + (real kj + real ka + real ks) / 10)\<rparr>"
    unfolding kj_def ka_def ks_def by (rule detect_emotions_eq)
  have pos: "0 < 1 + (real kj + real ka + real ks) / 10" by (simp add: add_pos_nonneg)
  have j: "0 \<le> joy (detect_emotions text)" and a: "0 \<le> anger (detect_emotions text)"
    and s: "0 \<le> surprise (detect_emotions text)"
    unfolding eq by simp_all
  have n: "0 \<le> neutral (detect_emotions text)" if "kj + ka + ks \<le> 10"
  proof -
    from that have "real (kj + ka + ks) \<le> 10" by simp
    then have "0 \<le> 1 - (real kj + real ka + real ks) / 10" by simp
    with pos show ?thesis unfolding eq by simp
  qed
  have z: "detect_emotions text =
      \<lparr>joy = 0, anger = 0, sadness = 0, fear = 0, surprise = 0, neutral = 1\<rparr>"
    if "kj + ka + ks = 0"
    using that unfolding eq by simp
  have sd: "0 \<le> sadness (detect_emotions text)" and fr: "0 \<le> fear (detect_emotions text)"
    by (simp_all add: detect_emotions_zero)
  have sm: "values_sum (detect_emotions text) = 1"
    by (rule detect_emotions_sum)
  have n': "length (filter (\<lambda>w. contains w (lower text)) (joy_words @ anger_words @ surprise_words))
         \<le> 10 \<longrightarrow> 0 \<le> neutral (detect_emotions text)"
    using n unfolding len by simp
  have z': "filter (\<lambda>w. contains w (lower text)) (joy_words @ anger_words @ surprise_words) = []
         \<longrightarrow> detect_emotions text =
               \<lparr>joy = 0, anger = 0, sadness = 0, fear = 0, surprise = 0, neutral = 1\<rparr>"
  proof
    assume "filter (\<lambda>w. contains w (lower text)) (joy_words @ anger_words @ surprise_words) = []"
    then have "length (filter (\<lambda>w. contains w (lower text))
        (joy_words @ anger_words @ surprise_words)) = 0"
      by (simp only: list.size)
    then have "kj + ka + ks = 0" unfolding len .
    then show "detect_emotions text =
        \<lparr>joy = 0, anger = 0, sadness = 0, fear = 0, surprise = 0, neutral = 1\<rparr>"
      by (rule z)
  qed
  show ?thesis
    using j a sd fr s sm n' z' by (intro conjI)
qed

subsection \<open>The sentiment distribution\<close>

lemma round_nearest_error: "\<bar>real_of_int (round_nearest up y) - y\<bar> \<le> 1 / 2"
proof -
  have "real_of_int \<lfloor>y\<rfloor> \<le> y" and "y < real_of_int \<lfloor>y\<rfloor> + 1"
    by linarith+
  then show ?thesis
    unfolding round_nearest_def Let_def by (auto simp: abs_le_iff)
qed

lemma py_round_error: "\<bar>py_round up x 3 - x\<bar> \<le> 1 / 2000"
proof -
  have "\<bar>real_of_int (round_nearest up (x * 1000)) - x * 1000\<bar> \<le> 1 / 2"
    by (rule round_nearest_error)
  then have "\<bar>(real_of_int (round_nearest up (x * 1000)) - x * 1000) / 1000\<bar> \<le> (1 / 2) / 1000"
    by (simp only: abs_divide) simp
  moreover have "(real_of_int (round_nearest up (x * 1000)) - x * 1000) / 1000 = py_round up x 3 - x"
    unfolding py_round_def by (simp add: diff_divide_distrib)
  ultimately show ?thesis by simp
qed

lemma py_round_zero: "py_round up 0 n = 0"
  unfolding py_round_def round_nearest_def Let_def by simp

lemma aggregate_emotions_fields:
  "joy (aggregate_emotions ss acc) = joy acc + sum_list (map (\<lambda>s. joy (emotions s)) ss)"
  "anger (aggregate_emotions ss acc) = anger acc + sum_list (map (\<lambda>s. anger (emotions s)) ss)"
  "sadness (aggregate_emotions ss acc) = sadness acc + sum_list (map (\<lambda>s. sadness (emotions s)) ss)"
  "fear (aggregate_emotions ss acc) = fear acc + sum_list (map (\<lambda>s. fear (emotions s)) ss)"
  "surprise (aggregate_emotions ss acc) = surprise acc + sum_list (map (\<lambda>s. surprise (emotions s)) ss)"
  "neutral (aggregate_emotions ss acc) = neutral acc + sum_list (map (\<lambda>s. neutral (emotions s)) ss)"
  by (induction ss arbitrary: acc) simp_all

lemma aggregate_emotions_sum:
  "values_sum (aggregate_emotions ss acc) =
     values_sum acc + sum_list (map (\<lambda>s. values_sum (emotions s)) ss)"
  by (induction ss arbitrary: acc) (simp_all add: values_sum_def)

lemma analyze_sentiment_distribution:
  assumes ne: "segs \<noteq> []"
    and one: "\<forall>s\<in>set segs. values_sum (emotions s) = 1"
    and sad: "\<forall>s\<in>set segs. sadness (emotions s) = 0"
    and fea: "\<forall>s\<in>set segs. fear (emotions s) = 0"
  shows "\<exists>dist. distribution (analyze_sentiment up segs) = Some dist
           \<and> \<bar>values_sum dist - 1\<bar> \<le> 2 / 1000"
proof -
  define agg where "agg = aggregate_emotions segs
      \<lparr>joy = 0, anger = 0, sadness = 0, fear = 0, surprise = 0, neutral = 0\<rparr>"
  define total where "total = values_sum agg"
  have "sum_list (map (\<lambda>s. values_sum (emotions s)) segs) = real (length segs)"
    using one by (induction segs) simp_all
  then have total: "total = real (length segs)"
    unfolding total_def agg_def aggregate_emotions_sum by (simp add: values_sum_def)
  have pos: "0 < total" unfolding total using ne by simp
  have "sum_list (map (\<lambda>s. sadness (emotions s)) segs) = 0"
    using sad by (induction segs) simp_all
  then have s0: "sadness agg = 0" unfolding agg_def aggregate_emotions_fields by simp
  have "sum_list (map (\<lambda>s. fear (emotions s)) segs) = 0"
    using fea by (induction segs) simp_all
  then have f0: "fear agg = 0" unfolding agg_def aggregate_emotions_fields by simp
  define dist where "dist =
      \<lparr>joy = py_round up (joy agg / total) 3, anger = py_round up (anger agg / total) 3,
       sadness = py_round up (sadness agg / total) 3, fear = py_round up (fear agg / total) 3,
       surprise = py_round up (surprise agg / total) 3,
       neutral = py_round up (neutral agg / total) 3\<rparr>"
  have d: "distribution (analyze_sentiment up segs) = Some dist"
    unfolding analyze_sentiment_def Let_def agg_def[symmetric] total_def[symmetric] dist_def
    using ne pos by simp
  have "joy agg + anger agg + surprise agg + neutral agg = total"
    unfolding total_def values_sum_def using s0 f0 by simp
  then have "(joy agg + anger agg + surprise agg + neutral agg) / total = 1"
    using pos by simp
  then have unit: "joy agg / total + anger agg / total + surprise agg / total
      + neutral agg / total = 1"
    by (simp only: add_divide_distrib)
  have vs: "values_sum dist = py_round up (joy agg / total) 3 + py_round up (anger agg / total) 3
      + py_round up (surprise agg / total) 3 + py_round up (neutral agg / total) 3"
    unfolding dist_def values_sum_def s0 f0 by (simp add: py_round_zero)
  have "\<bar>values_sum dist - 1\<bar> \<le> 2 / 1000"
    using py_round_error[of up "joy agg / total"] py_round_error[of up "anger agg / total"]
      py_round_error[of up "surprise agg / total"] py_round_error[of up "neutral agg / total"]
    unfolding vs using unit by linarith
  with d show ?thesis by blast
qed

text \<open>
  C5, amended: for every input with a non-empty segment list (the aggregate emotion
  signal is then the number of segments, hence nonzero), the returned sentiment has a
  distribution, and its six values, each rounded to 3 decimals, sum to 1 within an
  absolute tolerance of 0.002.
\<close>

theorem sentiment_distribution_sum:
  "tr_segments tr \<noteq> [] \<Longrightarrow>
     \<exists>dist. distribution (sentiment (analyze_video up tr d)) = Some dist
       \<and> \<bar>values_sum dist - 1\<bar> \<le> 2 / 1000"
proof -
  assume ne: "tr_segments tr \<noteq> []"
  define segs where "segs = map (\<lambda>sg. analyze_segment sg (tr_text tr)) (tr_segments tr)"
  have s: "sentiment (analyze_video up tr d) = analyze_sentiment up segs"
    unfolding analyze_video_def Let_def segs_def using ne by simp
  have "segs \<noteq> []" using ne by (simp add: segs_def)
  moreover have "\<forall>s\<in>set segs. values_sum (emotions s) = 1"
    by (auto simp: segs_def analyze_segment_fields detect_emotions_sum)
  moreover have "\<forall>s\<in>set segs. sadness (emotions s) = 0"
    by (auto simp: segs_def analyze_segment_fields detect_emotions_zero)
  moreover have "\<forall>s\<in>set segs. fear (emotions s) = 0"
    by (auto simp: segs_def analyze_segment_fields detect_emotions_zero)
  ultimately show ?thesis unfolding s by (rule analyze_sentiment_distribution)
qed

subsection \<open>The example inputs, evaluated\<close>

lemma detect_emotions_happy_angry:
  "detect_emotions ''happy angry'' =
     \<lparr>joy = 1 / 6, anger = 1 / 6, sadness = 0, fear = 0, surprise = 0, neutral = 2 / 3\<rparr>"
  unfolding detect_emotions_def Let_def
  by (simp add: joy_words_def anger_words_def surprise_words_def values_sum_def lower_def
      char_class_defs)

lemma detect_emotions_hi:
  "detect_emotions ''hi'' =
     \<lparr>joy = 0, anger = 0, sadness = 0, fear = 0, surprise = 0, neutral = 1\<rparr>"
  unfolding detect_emotions_def Let_def
  by (simp add: joy_words_def anger_words_def surprise_words_def values_sum_def lower_def
      char_class_defs)

lemma py_round_sixth: "py_round up (1 / 6) 3 = 167 / 1000" "py_round up (2 / 3) 3 = 667 / 1000"
  unfolding py_round_def round_nearest_def Let_def by simp_all

lemma example_scores:
  "calculate_hook_score ''hi'' 0 = 65"
  "calculate_engagement_score ''hi'' = 50"
  "calculate_viral_score ''hi'' 65 50 = 66"
  "calculate_hook_score ''ai money'' 33 = 60"
  "calculate_engagement_score ''ai money'' = 50"
  "calculate_viral_score ''ai money'' 60 50 = 74"
  by (simp_all add: calculate_hook_score_def calculate_engagement_score_def
      calculate_viral_score_def bold_indicators_def story_starters_def emotional_words_def
      cta_words_def controversial_def trending_def lower_def char_class_defs Let_def)

lemma example_fields:
  "seg_start (analyze_segment seg_a ft) = 0" "seg_end (analyze_segment seg_a ft) = 10"
  "seg_text (analyze_segment seg_a ft) = ''hi''"
  "hook_score (analyze_segment seg_a ft) = 65"
  "engagement_score (analyze_segment seg_a ft) = 50"
  "viral_score (analyze_segment seg_a ft) = 66"
  "seg_start (analyze_segment seg_b ft) = 33" "seg_end (analyze_segment seg_b ft) = 36"
  "seg_text (analyze_segment seg_b ft) = ''ai money''"
  "hook_score (analyze_segment seg_b ft) = 60"
  "engagement_score (analyze_segment seg_b ft) = 50"
  "viral_score (analyze_segment seg_b ft) = 74"
  by (simp_all add: analyze_segment_fields example_scores)

lemma py_round_whole: "py_round up (real_of_int k) 1 = real_of_int k"
  unfolding py_round_def round_nearest_def Let_def by simp

lemma two_segments_candidates:
  "candidate_windows up [analyze_segment seg_a ft, analyze_segment seg_b ft] 45 =
     [make_highlight up 0 30 [analyze_segment seg_a ft],
      make_highlight up 10 40 [analyze_segment seg_b ft],
      make_highlight up 15 45 [analyze_segment seg_b ft]]"
proof -
  define A where "A = analyze_segment seg_a ft"
  define B where "B = analyze_segment seg_b ft"
  have f: "seg_start A = 0" "seg_end A = 10" "seg_start B = 33" "seg_end B = 36"
    unfolding A_def B_def by (simp_all only: example_fields)
  have ws: "window_starts 45 = [0, 5, 10, 15]"
    by (simp add: window_starts_def py_int_def window_size_def stride_def py_range.simps)
  have w: "window_segments [A, B] 0 30 = [A]" "window_segments [A, B] 5 35 = []"
    "window_segments [A, B] 10 40 = [B]" "window_segments [A, B] 15 45 = [B]"
    by (simp_all add: window_segments_def f)
  have "candidate_windows up [A, B] 45 =
      [make_highlight up 0 30 [A], make_highlight up 10 40 [B], make_highlight up 15 45 [B]]"
    unfolding candidate_windows_def ws by (simp add: Let_def window_size_def w)
  then show ?thesis unfolding A_def B_def .
qed

lemma two_segments_highlights:
  "segment_analysis (analyze_video up two_segments 45) =
     Some [analyze_segment seg_a ''hi ai money'', analyze_segment seg_b ''hi ai money'']"
  "highlights (analyze_video up two_segments 45) =
     [make_highlight up 10 40 [analyze_segment seg_b ''hi ai money''],
      make_highlight up 15 45 [analyze_segment seg_b ''hi ai money''],
      make_highlight up 0 30 [analyze_segment seg_a ''hi ai money'']]"
  "map hl_start (highlights (analyze_video up two_segments 45)) = [10, 15, 0]"
  "map hl_viral_score (highlights (analyze_video up two_segments 45)) = [74, 74, 66]"
proof -
  define A where "A = analyze_segment seg_a ''hi ai money''"
  define B where "B = analyze_segment seg_b ''hi ai money''"
  have cw: "candidate_windows up [A, B] 45 =
      [make_highlight up 0 30 [A], make_highlight up 10 40 [B], make_highlight up 15 45 [B]]"
    unfolding A_def B_def by (rule two_segments_candidates)
  have "py_round up (real_of_int 66) 1 = real_of_int 66" "py_round up (real_of_int 74) 1 = real_of_int 74"
    by (rule py_round_whole)+
  then have hv: "hl_viral_score (make_highlight up 0 30 [A]) = 66"
    "hl_viral_score (make_highlight up 10 40 [B]) = 74"
    "hl_viral_score (make_highlight up 15 45 [B]) = 74"
    unfolding A_def B_def by (simp_all add: make_highlight_fields mean_def example_fields)
  have dh: "detect_highlights up [A, B] 45 =
      [make_highlight up 10 40 [B], make_highlight up 15 45 [B], make_highlight up 0 30 [A]]"
    unfolding detect_highlights_def cw sort_desc_def by (simp add: hv)
  have hl: "highlights (analyze_video up two_segments 45) = detect_highlights up [A, B] 45"
    unfolding analyze_video_def Let_def A_def B_def by simp
  show "segment_analysis (analyze_video up two_segments 45) =
     Some [analyze_segment seg_a ''hi ai money'', analyze_segment seg_b ''hi ai money'']"
    unfolding analyze_video_def Let_def by simp
  show "highlights (analyze_video up two_segments 45) =
     [make_highlight up 10 40 [analyze_segment seg_b ''hi ai money''],
      make_highlight up 15 45 [analyze_segment seg_b ''hi ai money''],
      make_highlight up 0 30 [analyze_segment seg_a ''hi ai money'']]"
    using hl[unfolded dh] unfolding A_def B_def .
  show "map hl_start (highlights (analyze_video up two_segments 45)) = [10, 15, 0]"
    unfolding hl dh by (simp add: make_highlight_fields)
  show "map hl_viral_score (highlights (analyze_video up two_segments 45)) = [74, 74, 66]"
    unfolding hl dh by (simp add: hv)
qed

lemma one_segment_distribution:
  "distribution (sentiment (analyze_video up one_segment 15)) =
     Some \<lparr>joy = 167 / 1000, anger = 167 / 1000, sadness = 0, fear = 0, surprise = 0,
           neutral = 667 / 1000\<rparr>"
proof -
  define A where
    "A = analyze_segment \<lparr>seg_start = 5, seg_end = 10, seg_text = ''happy angry''\<rparr> ''happy angry''"
  have e: "emotions A =
      \<lparr>joy = 1 / 6, anger = 1 / 6, sadness = 0, fear = 0, surprise = 0, neutral = 2 / 3\<rparr>"
    unfolding A_def by (simp add: analyze_segment_fields detect_emotions_happy_angry)
  have s: "sentiment (analyze_video up one_segment 15) = analyze_sentiment up [A]"
    unfolding analyze_video_def Let_def A_def by simp
  have agg: "aggregate_emotions [A]
      \<lparr>joy = 0, anger = 0, sadness = 0, fear = 0, surprise = 0, neutral = 0\<rparr> =
      \<lparr>joy = 1 / 6, anger = 1 / 6, sadness = 0, fear = 0, surprise = 0, neutral = 2 / 3\<rparr>"
    by (simp add: e)
  show ?thesis
    unfolding s analyze_sentiment_def Let_def agg
    by (simp add: values_sum_def py_round_sixth py_round_zero)
qed

lemma detect_emotions_eleven:
  "detect_emotions ''happy joy excited amazing great awesome love perfect angry hate terrible'' =
     \<lparr>joy = 16 / 21, anger = 2 / 7, sadness = 0, fear = 0, surprise = 0, neutral = - (1 / 21)\<rparr>"
proof -
  have "filter (\<lambda>w. contains w
        (lower ''happy joy excited amazing great awesome love perfect angry hate terrible''))
      joy_words = joy_words"
    by (simp add: joy_words_def lower_def char_class_defs)
  moreover have "filter (\<lambda>w. contains w
        (lower ''happy joy excited amazing great awesome love perfect angry hate terrible''))
      anger_words = [''angry'', ''hate'', ''terrible'']"
    by (simp add: anger_words_def lower_def char_class_defs)
  moreover have "filter (\<lambda>w. contains w
        (lower ''happy joy excited amazing great awesome love perfect angry hate terrible''))
      surprise_words = []"
    by (simp add: surprise_words_def lower_def char_class_defs)
  ultimately show ?thesis
    unfolding detect_emotions_eq by (simp add: joy_words_def)
qed

lemma py_round_eleven:
  "py_round up (16 / 21) 3 = 762 / 1000" "py_round up (2 / 7) 3 = 286 / 1000"
  "py_round up (- (1 / 21)) 3 = - (48 / 1000)"
  unfolding py_round_def round_nearest_def Let_def by simp_all

subsection \<open>Emotions and sentiment on the examples\<close>

text \<open>
  C4, as the claim states it, fails: a text in which eleven vocabulary words match has a
  negative neutral value after normalisation.
\<close>

theorem detect_emotions_negative_neutral_counterexample:
  "neutral (detect_emotions
      ''happy joy excited amazing great awesome love perfect angry hate terrible'') = - (1 / 21)
   \<and> \<not> 0 \<le> neutral (detect_emotions
      ''happy joy excited amazing great awesome love perfect angry hate terrible'')"
  unfolding detect_emotions_eleven by simp

text \<open>
  C4, amended, on "happy angry" (two matches) and on "hi" (no match).
\<close>

theorem detect_emotions_distribution_witness:
  "length (filter (\<lambda>w. contains w (lower ''happy angry''))
       (joy_words @ anger_words @ surprise_words)) = 2
   \<and> detect_emotions ''happy angry'' =
       \<lparr>joy = 1 / 6, anger = 1 / 6, sadness = 0, fear = 0, surprise = 0, neutral = 2 / 3\<rparr>
   \<and> 0 \<le> neutral (detect_emotions ''happy angry'')
   \<and> values_sum (detect_emotions ''happy angry'') = 1
   \<and> filter (\<lambda>w. contains w (lower ''hi'')) (joy_words @ anger_words @ surprise_words) = []
   \<and> detect_emotions ''hi'' =
       \<lparr>joy = 0, anger = 0, sadness = 0, fear = 0, surprise = 0, neutral = 1\<rparr>"
proof -
  have n: "length (filter (\<lambda>w. contains w (lower ''happy angry''))
       (joy_words @ anger_words @ surprise_words)) = 2"
    by (simp add: joy_words_def anger_words_def surprise_words_def lower_def char_class_defs)
  have z: "filter (\<lambda>w. contains w (lower ''hi'')) (joy_words @ anger_words @ surprise_words) = []"
    by (simp add: joy_words_def anger_words_def surprise_words_def lower_def char_class_defs)
  note a = detect_emotions_distribution[of "''happy angry''"]
  note b = detect_emotions_distribution[of "''hi''"]
  from a n have a1: "0 \<le> neutral (detect_emotions ''happy angry'')" by simp
  from a have a2: "values_sum (detect_emotions ''happy angry'') = 1" by blast
  from b z have b1: "detect_emotions ''hi'' =
       \<lparr>joy = 0, anger = 0, sadness = 0, fear = 0, surprise = 0, neutral = 1\<rparr>"
    by blast
  show ?thesis
    using n detect_emotions_happy_angry a1 a2 z b1 by (intro conjI)
qed

text \<open>
  C5, as the claim states it, fails: for the single segment "happy angry" the rounded
  distribution is 0.167, 0.167, 0, 0, 0, 0.667, whose sum 1.001 is farther from 1 than
  \<open>10\<^sup>-\<^sup>6\<close>.
\<close>

theorem sentiment_distribution_sum_counterexample:
  "distribution (sentiment (analyze_video ties_to_even one_segment 15)) =
     Some \<lparr>joy = 167 / 1000, anger = 167 / 1000, sadness = 0, fear = 0, surprise = 0,
           neutral = 667 / 1000\<rparr>
   \<and> values_sum \<lparr>joy = 167 / 1000, anger = 167 / 1000, sadness = 0, fear = 0, surprise = 0,
           neutral = 667 / 1000\<rparr> = 1001 / 1000
   \<and> \<not> \<bar>values_sum \<lparr>joy = 167 / 1000, anger = 167 / 1000, sadness = 0, fear = 0,
           surprise = 0, neutral = 667 / 1000\<rparr> - 1\<bar> \<le> 1 / 1000000"
  using one_segment_distribution by (simp add: values_sum_def)

text \<open>
  C5, amended, on the single segment "happy angry".
\<close>

theorem sentiment_distribution_sum_witness:
  "tr_segments one_segment \<noteq> []
   \<and> (\<exists>dist. distribution (sentiment (analyze_video ties_to_even one_segment 15)) = Some dist
         \<and> \<bar>values_sum dist - 1\<bar> \<le> 2 / 1000)"
proof -
  have ne: "tr_segments one_segment \<noteq> []" by simp
  from sentiment_distribution_sum[OF ne, of ties_to_even 15] ne show ?thesis by (intro conjI)
qed

subsection \<open>Score ranges\<close>

text \<open>
  C3, as the claim states it, fails in its last part: the returned result can hold a
  negative value. For the single segment whose text matches eleven vocabulary words, the
  neutral value of the segment's emotions in \<^verbatim>\<open>segment_analysis\<close> is \<open>- 1 / 21\<close>,
  and the neutral value of \<^verbatim>\<open>sentiment.distribution\<close> is \<open>- 0.048\<close>.
\<close>

theorem negative_value_in_result_counterexample:
  "segment_analysis (analyze_video ties_to_even eleven_matches 30) =
     Some [analyze_segment
       \<lparr>seg_start = 0, seg_end = 10,
        seg_text = ''happy joy excited amazing great awesome love perfect angry hate terrible''\<rparr>
       ''happy joy excited amazing great awesome love perfect angry hate terrible'']
   \<and> neutral (emotions (analyze_segment
       \<lparr>seg_start = 0, seg_end = 10,
        seg_text = ''happy joy excited amazing great awesome love perfect angry hate terrible''\<rparr>
       ''happy joy excited amazing great awesome love perfect angry hate terrible'')) = - (1 / 21)
   \<and> \<not> 0 \<le> neutral (emotions (analyze_segment
       \<lparr>seg_start = 0, seg_end = 10,
        seg_text = ''happy joy excited amazing great awesome love perfect angry hate terrible''\<rparr>
       ''happy joy excited amazing great awesome love perfect angry hate terrible''))
   \<and> distribution (sentiment (analyze_video ties_to_even eleven_matches 30)) =
       Some \<lparr>joy = 762 / 1000, anger = 286 / 1000, sadness = 0, fear = 0, surprise = 0,
             neutral = - (48 / 1000)\<rparr>"
proof -
  define A where "A = analyze_segment
       \<lparr>seg_start = 0, seg_end = 10,
        seg_text = ''happy joy excited amazing great awesome love perfect angry hate terrible''\<rparr>
       ''happy joy excited amazing great awesome love perfect angry hate terrible''"
  have e: "emotions A =
      \<lparr>joy = 16 / 21, anger = 2 / 7, sadness = 0, fear = 0, surprise = 0, neutral = - (1 / 21)\<rparr>"
    unfolding A_def by (simp add: analyze_segment_fields detect_emotions_eleven)
  have sa: "segment_analysis (analyze_video ties_to_even eleven_matches 30) = Some [A]"
    unfolding analyze_video_def Let_def A_def by simp
  have s: "sentiment (analyze_video ties_to_even eleven_matches 30) = analyze_sentiment ties_to_even [A]"
    unfolding analyze_video_def Let_def A_def by simp
  have agg: "aggregate_emotions [A]
      \<lparr>joy = 0, anger = 0, sadness = 0, fear = 0, surprise = 0, neutral = 0\<rparr> =
      \<lparr>joy = 16 / 21, anger = 2 / 7, sadness = 0, fear = 0, surprise = 0, neutral = - (1 / 21)\<rparr>"
    by (simp add: e)
  have d: "distribution (sentiment (analyze_video ties_to_even eleven_matches 30)) =
       Some \<lparr>joy = 762 / 1000, anger = 286 / 1000, sadness = 0, fear = 0, surprise = 0,
             neutral = - (48 / 1000)\<rparr>"
    unfolding s analyze_sentiment_def Let_def agg
    by (simp add: values_sum_def py_round_eleven py_round_zero)
  have n: "neutral (emotions A) = - (1 / 21)" and n': "\<not> 0 \<le> neutral (emotions A)"
    unfolding e by simp_all
  show ?thesis
    using sa n n' d unfolding A_def by (intro conjI)
qed

text \<open>
  C3, amended: for every transcription and duration, and however ties are rounded, the
  hook, engagement and viral score of every analysed segment, and the three averaged and
  rounded scores of every returned highlight, lie in the closed interval from 0 to 100;
  so no score is negative or out of range. (Nothing is said of the other numbers of the
  result: the emotion values are the subject of C4.)
\<close>

theorem scores_in_range:
  "(\<forall>ss. segment_analysis (analyze_video up tr d) = Some ss \<longrightarrow>
      (\<forall>s\<in>set ss. 0 \<le> hook_score s \<and> hook_score s \<le> 100
         \<and> 0 \<le> engagement_score s \<and> engagement_score s \<le> 100
         \<and> 0 \<le> viral_score s \<and> viral_score s \<le> 100))
   \<and> (\<forall>h\<in>set (highlights (analyze_video up tr d)).
         0 \<le> hl_hook_score h \<and> hl_hook_score h \<le> 100
         \<and> 0 \<le> hl_engagement_score h \<and> hl_engagement_score h \<le> 100
         \<and> 0 \<le> hl_viral_score h \<and> hl_viral_score h \<le> 100)"
proof -
  define segs where "segs = map (\<lambda>sg. analyze_segment sg (tr_text tr)) (tr_segments tr)"
  have seg_ok: "0 \<le> hook_score s \<and> hook_score s \<le> 100
         \<and> 0 \<le> engagement_score s \<and> engagement_score s \<le> 100
         \<and> 0 \<le> viral_score s \<and> viral_score s \<le> 100" if "s \<in> set segs" for s
  proof -
    from that obtain sg where "s = analyze_segment sg (tr_text tr)"
      by (auto simp: segs_def)
    then show ?thesis
      using hook_score_range engagement_score_range viral_score_range
      by (simp add: analyze_segment_fields)
  qed
  have hl_ok: "0 \<le> hl_hook_score h \<and> hl_hook_score h \<le> 100
         \<and> 0 \<le> hl_engagement_score h \<and> hl_engagement_score h \<le> 100
         \<and> 0 \<le> hl_viral_score h \<and> hl_viral_score h \<le> 100"
    if "h \<in> set (detect_highlights up segs d)" for h
  proof -
    from that have "h \<in> set (window_loop up segs (window_starts d))"
      using detect_highlights_subset[of up segs d] by (auto simp: candidate_windows_def)
    then obtain st where ne: "window_segments segs st (st + window_size) \<noteq> []"
      and h: "h = make_highlight up st (st + window_size) (window_segments segs st (st + window_size))"
      using window_loop_elem by blast
    define ws where "ws = window_segments segs st (st + window_size)"
    have sub: "set ws \<subseteq> set segs" by (auto simp: ws_def window_segments_def)
    have ne': "map viral_score ws \<noteq> []" "map hook_score ws \<noteq> []" "map engagement_score ws \<noteq> []"
      using ne by (simp_all add: ws_def)
    have "\<forall>x\<in>set (map viral_score ws). 0 \<le> x \<and> x \<le> 100"
      using seg_ok sub by auto
    from mean_range[OF ne'(1) this] have v: "0 \<le> py_round up (mean (map viral_score ws)) 1
        \<and> py_round up (mean (map viral_score ws)) 1 \<le> 100"
      using py_round_range by blast
    have "\<forall>x\<in>set (map hook_score ws). 0 \<le> x \<and> x \<le> 100"
      using seg_ok sub by auto
    from mean_range[OF ne'(2) this] have k: "0 \<le> py_round up (mean (map hook_score ws)) 1
        \<and> py_round up (mean (map hook_score ws)) 1 \<le> 100"
      using py_round_range by blast
    have "\<forall>x\<in>set (map engagement_score ws). 0 \<le> x \<and> x \<le> 100"
      using seg_ok sub by auto
    from mean_range[OF ne'(3) this] have e: "0 \<le> py_round up (mean (map engagement_score ws)) 1
        \<and> py_round up (mean (map engagement_score ws)) 1 \<le> 100"
      using py_round_range by blast
    from v k e show ?thesis
      unfolding h ws_def[symmetric] by (simp add: make_highlight_fields)
  qed
  have res: "analyze_video up tr d =
      (if tr_segments tr = []
       then \<lparr>highlights = [], topics = [], result_keywords = [], sentiment = empty_dict,
             segment_analysis = None\<rparr>
       else \<lparr>highlights = detect_highlights up segs d,
             topics = extract_topics (tr_text tr),
             result_keywords = extract_keywords (tr_text tr) (map seg_text (tr_segments tr)),
             sentiment = analyze_sentiment up segs,
             segment_analysis = Some segs\<rparr>)"
    unfolding analyze_video_def Let_def segs_def by simp
  show ?thesis
  proof (cases "tr_segments tr = []")
    case True
    then show ?thesis unfolding res by simp
  next
    case False
    then show ?thesis unfolding res using seg_ok hl_ok by simp
  qed
qed

text \<open>
  C3 on the two-segment transcript at duration 45: both analysed segments and the three
  returned highlights, with viral scores 74, 74 and 66, are in range.
\<close>

theorem scores_in_range_witness:
  "segment_analysis (analyze_video ties_to_even two_segments 45) =
     Some [analyze_segment seg_a ''hi ai money'', analyze_segment seg_b ''hi ai money'']
   \<and> list_all (\<lambda>s. 0 \<le> hook_score s \<and> hook_score s \<le> 100
         \<and> 0 \<le> engagement_score s \<and> engagement_score s \<le> 100
         \<and> 0 \<le> viral_score s \<and> viral_score s \<le> 100)
       [analyze_segment seg_a ''hi ai money'', analyze_segment seg_b ''hi ai money'']
   \<and> map hl_viral_score (highlights (analyze_video ties_to_even two_segments 45)) = [74, 74, 66]
   \<and> list_all (\<lambda>h. 0 \<le> hl_hook_score h \<and> hl_hook_score h \<le> 100
         \<and> 0 \<le> hl_engagement_score h \<and> hl_engagement_score h \<le> 100
         \<and> 0 \<le> hl_viral_score h \<and> hl_viral_score h \<le> 100)
       (highlights (analyze_video ties_to_even two_segments 45))"
proof -
  note r = scores_in_range[of ties_to_even two_segments 45]
  from r have "\<forall>s\<in>set [analyze_segment seg_a ''hi ai money'', analyze_segment seg_b ''hi ai money''].
      0 \<le> hook_score s \<and> hook_score s \<le> 100
         \<and> 0 \<le> engagement_score s \<and> engagement_score s \<le> 100
         \<and> 0 \<le> viral_score s \<and> viral_score s \<le> 100"
    using two_segments_highlights(1) by blast
  then have s: "list_all (\<lambda>s. 0 \<le> hook_score s \<and> hook_score s \<le> 100
         \<and> 0 \<le> engagement_score s \<and> engagement_score s \<le> 100
         \<and> 0 \<le> viral_score s \<and> viral_score s \<le> 100)
       [analyze_segment seg_a ''hi ai money'', analyze_segment seg_b ''hi ai money'']"
    by (simp only: list_all_iff)
  from r have "\<forall>h\<in>set (highlights (analyze_video ties_to_even two_segments 45)).
         0 \<le> hl_hook_score h \<and> hl_hook_score h \<le> 100
         \<and> 0 \<le> hl_engagement_score h \<and> hl_engagement_score h \<le> 100
         \<and> 0 \<le> hl_viral_score h \<and> hl_viral_score h \<le> 100"
    by blast
  then have h: "list_all (\<lambda>h. 0 \<le> hl_hook_score h \<and> hl_hook_score h \<le> 100
         \<and> 0 \<le> hl_engagement_score h \<and> hl_engagement_score h \<le> 100
         \<and> 0 \<le> hl_viral_score h \<and> hl_viral_score h \<le> 100)
       (highlights (analyze_video ties_to_even two_segments 45))"
    by (simp only: list_all_iff)
  show ?thesis
    using two_segments_highlights(1) s two_segments_highlights(4) h by (intro conjI)
qed

subsection \<open>Ranking of the highlights\<close>

text \<open>
  C6: for every transcription and duration, the returned highlights are in non-increasing
  order of viral score, of two highlights with equal viral score the one that comes first
  has the earlier start, and there are at most 10 of them.
\<close>

theorem highlights_ranked:
  "sorted_wrt (\<lambda>a b. hl_viral_score b \<le> hl_viral_score a
                 \<and> (hl_viral_score a = hl_viral_score b \<longrightarrow> hl_start a < hl_start b))
     (highlights (analyze_video up tr d))
   \<and> length (highlights (analyze_video up tr d)) \<le> 10"
proof -
  define segs where "segs = map (\<lambda>sg. analyze_segment sg (tr_text tr)) (tr_segments tr)"
  have ranked: "sorted_wrt (\<lambda>a b. hl_viral_score b \<le> hl_viral_score a
                 \<and> (hl_viral_score a = hl_viral_score b \<longrightarrow> hl_start a < hl_start b))
     (detect_highlights up segs d)"
    unfolding detect_highlights_def
    by (intro sorted_wrt_take sorted_wrt_sort_desc candidate_windows_increasing)
  have len: "length (detect_highlights up segs d) \<le> 10"
    unfolding detect_highlights_def by simp
  have "highlights (analyze_video up tr d) =
      (if tr_segments tr = [] then [] else detect_highlights up segs d)"
    unfolding analyze_video_def Let_def segs_def by simp
  with ranked len show ?thesis by simp
qed

text \<open>
  C6 on the two-segment transcript at duration 45: the windows at 10 and 15 tie at 74 and
  keep their order, the window at 0, generated first, comes last with 66.
\<close>

theorem highlights_ranked_witness:
  "map hl_start (highlights (analyze_video ties_to_even two_segments 45)) = [10, 15, 0]
   \<and> map hl_viral_score (highlights (analyze_video ties_to_even two_segments 45)) = [74, 74, 66]
   \<and> sorted_wrt (\<lambda>a b. hl_viral_score b \<le> hl_viral_score a
                 \<and> (hl_viral_score a = hl_viral_score b \<longrightarrow> hl_start a < hl_start b))
       (highlights (analyze_video ties_to_even two_segments 45))
   \<and> length (highlights (analyze_video ties_to_even two_segments 45)) \<le> 10"
  using two_segments_highlights(3) two_segments_highlights(4)
    highlights_ranked[of ties_to_even two_segments 45]
  by (intro conjI) blast+

subsection \<open>Segments of a window\<close>

text \<open>
  C9: every candidate window starts at one of the window starts and ends 30 later; the
  segments that make it up (its transcript and, through \<^const>\<open>make_highlight\<close>, its
  scores) are exactly those that start at or after the window's start and end at or
  before its end, and there is at least one of them. A window start yields a candidate
  exactly when some segment lies inside the window, so an empty window yields none; the
  returned highlights are among the candidates.
\<close>

theorem window_selection:
  "(\<forall>h\<in>set (candidate_windows up segs d).
       hl_start h \<in> set (window_starts d)
     \<and> hl_end h = hl_start h + 30
     \<and> filter (\<lambda>s. real_of_int (hl_start h) \<le> seg_start s
                    \<and> seg_end s \<le> real_of_int (hl_end h)) segs \<noteq> []
     \<and> h = make_highlight up (hl_start h) (hl_end h)
           (filter (\<lambda>s. real_of_int (hl_start h) \<le> seg_start s
                        \<and> seg_end s \<le> real_of_int (hl_end h)) segs)
     \<and> transcript h = join_space (map seg_text
           (filter (\<lambda>s. real_of_int (hl_start h) \<le> seg_start s
                        \<and> seg_end s \<le> real_of_int (hl_end h)) segs)))
   \<and> (\<forall>st\<in>set (window_starts d).
        (\<exists>h\<in>set (candidate_windows up segs d). hl_start h = st)
        = (\<exists>s\<in>set segs. real_of_int st \<le> seg_start s \<and> seg_end s \<le> real_of_int (st + 30)))
   \<and> set (detect_highlights up segs d) \<subseteq> set (candidate_windows up segs d)"
proof (intro conjI ballI)
  fix h assume "h \<in> set (candidate_windows up segs d)"
  then obtain st where st: "st \<in> set (window_starts d)"
    and ne: "window_segments segs st (st + window_size) \<noteq> []"
    and h: "h = make_highlight up st (st + window_size) (window_segments segs st (st + window_size))"
    unfolding candidate_windows_def using window_loop_elem by blast
  have s: "hl_start h = st" and e: "hl_end h = st + 30"
    unfolding h by (simp_all add: make_highlight_fields window_size_def)
  have w: "window_segments segs st (st + window_size) =
      filter (\<lambda>s. real_of_int (hl_start h) \<le> seg_start s
                    \<and> seg_end s \<le> real_of_int (hl_end h)) segs"
    unfolding s e by (simp add: window_segments_def window_size_def)
  show "hl_start h \<in> set (window_starts d)" using st s by simp
  show "hl_end h = hl_start h + 30" using s e by simp
  show "filter (\<lambda>s. real_of_int (hl_start h) \<le> seg_start s
                    \<and> seg_end s \<le> real_of_int (hl_end h)) segs \<noteq> []"
    using ne w by simp
  show "h = make_highlight up (hl_start h) (hl_end h)
           (filter (\<lambda>s. real_of_int (hl_start h) \<le> seg_start s
                        \<and> seg_end s \<le> real_of_int (hl_end h)) segs)"
    using h w s e by (simp add: window_size_def)
  then have "transcript h = transcript (make_highlight up (hl_start h) (hl_end h)
           (filter (\<lambda>s. real_of_int (hl_start h) \<le> seg_start s
                        \<and> seg_end s \<le> real_of_int (hl_end h)) segs))"
    by simp
  then show "transcript h = join_space (map seg_text
           (filter (\<lambda>s. real_of_int (hl_start h) \<le> seg_start s
                        \<and> seg_end s \<le> real_of_int (hl_end h)) segs))"
    by (simp only: make_highlight_fields)
next
  fix st assume "st \<in> set (window_starts d)"
  then have "(\<exists>h\<in>set (candidate_windows up segs d). hl_start h = st)
      = (window_segments segs st (st + window_size) \<noteq> [])"
    using window_loop_starts[of up segs "window_starts d"]
    by (metis (mono_tags, lifting) candidate_windows_def image_iff list.set_map mem_Collect_eq set_filter)
  also have "\<dots> = (\<exists>s\<in>set segs. real_of_int st \<le> seg_start s \<and> seg_end s \<le> real_of_int (st + 30))"
    by (simp add: window_segments_def window_size_def filter_empty_conv)
  finally show "(\<exists>h\<in>set (candidate_windows up segs d). hl_start h = st)
        = (\<exists>s\<in>set segs. real_of_int st \<le> seg_start s \<and> seg_end s \<le> real_of_int (st + 30))" .
next
  show "set (detect_highlights up segs d) \<subseteq> set (candidate_windows up segs d)"
    by (rule detect_highlights_subset)
qed

text \<open>
  C9 on the two analysed segments at duration 45: the window at 5 holds no segment (the
  first segment overlaps it only in part, the second ends after it) and yields no
  candidate; the window at 10 is made of the second segment alone.
\<close>

theorem window_selection_witness:
  "window_starts 45 = [0, 5, 10, 15]
   \<and> map hl_start (candidate_windows ties_to_even
         [analyze_segment seg_a ''hi ai money'', analyze_segment seg_b ''hi ai money''] 45)
       = [0, 10, 15]
   \<and> \<not> (\<exists>s\<in>set [analyze_segment seg_a ''hi ai money'', analyze_segment seg_b ''hi ai money''].
          real_of_int 5 \<le> seg_start s \<and> seg_end s \<le> real_of_int (5 + 30))
   \<and> \<not> (\<exists>h\<in>set (candidate_windows ties_to_even
         [analyze_segment seg_a ''hi ai money'', analyze_segment seg_b ''hi ai money''] 45).
          hl_start h = 5)
   \<and> transcript (make_highlight ties_to_even 10 40 [analyze_segment seg_b ''hi ai money'']) = ''ai money''"
proof -
  define A where "A = analyze_segment seg_a ''hi ai money''"
  define B where "B = analyze_segment seg_b ''hi ai money''"
  have f: "seg_start A = 0" "seg_end A = 10" "seg_start B = 33" "seg_end B = 36"
    "seg_text B = ''ai money''"
    unfolding A_def B_def by (simp_all only: example_fields)
  have ws: "window_starts 45 = [0, 5, 10, 15]"
    by (simp add: window_starts_def py_int_def window_size_def stride_def py_range.simps)
  have cw: "candidate_windows ties_to_even [A, B] 45 =
      [make_highlight ties_to_even 0 30 [A], make_highlight ties_to_even 10 40 [B], make_highlight ties_to_even 15 45 [B]]"
    unfolding A_def B_def by (rule two_segments_candidates)
  have st: "map hl_start (candidate_windows ties_to_even [A, B] 45) = [0, 10, 15]"
    unfolding cw by (simp add: make_highlight_fields)
  note sel = window_selection[of ties_to_even "[A, B]" 45]
  have none: "\<not> (\<exists>s\<in>set [A, B]. real_of_int 5 \<le> seg_start s \<and> seg_end s \<le> real_of_int (5 + 30))"
    by (simp add: f)
  have "5 \<in> set (window_starts 45)" unfolding ws by simp
  with sel have "(\<exists>h\<in>set (candidate_windows ties_to_even [A, B] 45). hl_start h = 5)
      = (\<exists>s\<in>set [A, B]. real_of_int 5 \<le> seg_start s \<and> seg_end s \<le> real_of_int (5 + 30))"
    by blast
  with none have skipped: "\<not> (\<exists>h\<in>set (candidate_windows ties_to_even [A, B] 45). hl_start h = 5)"
    by simp
  have "make_highlight ties_to_even 10 40 [B] \<in> set (candidate_windows ties_to_even [A, B] 45)"
    unfolding cw by simp
  with sel have "transcript (make_highlight ties_to_even 10 40 [B]) = join_space (map seg_text
      (filter (\<lambda>s. real_of_int (hl_start (make_highlight ties_to_even 10 40 [B])) \<le> seg_start s
                   \<and> seg_end s \<le> real_of_int (hl_end (make_highlight ties_to_even 10 40 [B]))) [A, B]))"
    by blast
  then have tr: "transcript (make_highlight ties_to_even 10 40 [B]) = ''ai money''"
    by (simp add: make_highlight_fields f)
  show ?thesis
    using ws st none skipped tr unfolding A_def B_def by (intro conjI)
qed

end
